theory Spec2Isabelle
  imports Complex_Main "HOL-Library.Word"
begin

section \<open>Server: the bouncing ball (server.py, class Ball)\<close>

text \<open>
  The attributes of \<^verbatim>\<open>Ball\<close> are Python integers (the class docstring types all five
  as int), so they are unbounded: \<^typ>\<open>int\<close>.
\<close>

record Ball =
  x :: int
  y :: int
  velocity_x :: int
  velocity_y :: int
  radius :: int

text \<open>
  \<^verbatim>\<open>Ball._check_bounce\<close>: two independent tests, the one on the x axis first. Each
  multiplies the velocity component by \<open>-1\<close>; neither touches the position.
\<close>

definition check_bounce :: "Ball \<Rightarrow> int \<Rightarrow> int \<Rightarrow> Ball" where
  "check_bounce self width height =
     (let self1 = (if x self - radius self \<le> 0 \<or> x self + radius self \<ge> width
                   then self\<lparr>velocity_x := velocity_x self * (- 1)\<rparr> else self);
          self2 = (if y self1 - radius self1 \<le> 0 \<or> y self1 + radius self1 \<ge> height
                   then self1\<lparr>velocity_y := velocity_y self1 * (- 1)\<rparr> else self1)
      in self2)"

text \<open>
  \<^verbatim>\<open>Ball.update_position\<close>: \<^verbatim>\<open>self.x += self.velocity_x\<close>, then
  \<^verbatim>\<open>self.y += self.velocity_y\<close>, then the bounce check on the moved ball.
\<close>

definition update_position :: "Ball \<Rightarrow> int \<Rightarrow> int \<Rightarrow> Ball" where
  "update_position self width height =
     (let self1 = self\<lparr>x := x self + velocity_x self\<rparr>;
          self2 = self1\<lparr>y := y self1 + velocity_y self1\<rparr>
      in check_bounce self2 width height)"

text \<open>
  \<^verbatim>\<open>BouncingBallTrack.recv\<close> calls \<^verbatim>\<open>update_position\<close> once per frame with the
  track's fixed dimensions; \<open>ticks n\<close> is the ball after \<open>n\<close> frames.
\<close>

fun ticks :: "nat \<Rightarrow> Ball \<Rightarrow> int \<Rightarrow> int \<Rightarrow> Ball" where
  "ticks 0 self width height = self"
| "ticks (Suc n) self width height = update_position (ticks n self width height) width height"

text \<open>The position interval \<open>[radius, dimension - radius]\<close> of the data model, on both axes.\<close>

definition in_bounds :: "Ball \<Rightarrow> int \<Rightarrow> int \<Rightarrow> bool" where
  "in_bounds self width height \<longleftrightarrow>
     radius self \<le> x self \<and> x self \<le> width - radius self \<and>
     radius self \<le> y self \<and> y self \<le> height - radius self"

text \<open>
  The states reachable from a position inside the bounds: on each axis the centre is
  inside, or it is outside by one step and the (already inverted) velocity leads back
  to where it came from.
\<close>

definition near_bounds :: "Ball \<Rightarrow> int \<Rightarrow> int \<Rightarrow> bool" where
  "near_bounds self width height \<longleftrightarrow>
     ((radius self \<le> x self \<and> x self \<le> width - radius self) \<or>
      (radius self \<le> x self + velocity_x self \<and> x self + velocity_x self \<le> width - radius self \<and>
       (x self < radius self \<and> 0 < velocity_x self \<or>
        width - radius self < x self \<and> velocity_x self < 0))) \<and>
     ((radius self \<le> y self \<and> y self \<le> height - radius self) \<or>
      (radius self \<le> y self + velocity_y self \<and> y self + velocity_y self \<le> height - radius self \<and>
       (y self < radius self \<and> 0 < velocity_y self \<or>
        height - radius self < y self \<and> velocity_y self < 0)))"


section \<open>Server: the telemetry handler (server.py, setup_data_channel.on_message)\<close>

text \<open>
  Exceptions, as values: nothing in \<^verbatim>\<open>on_message\<close> catches one. \<open>OtherError\<close> holds
  the name of any exception class not listed.
\<close>

datatype py_error = JSONDecodeError | RecursionError | UnicodeDecodeError | KeyError string
  | TypeError | OverflowError | ValueError | OtherError string

text \<open>
  The Python values \<^verbatim>\<open>json.loads\<close> builds: \<^verbatim>\<open>None\<close>, booleans, integers
  (unbounded), floats, strings, lists and dictionaries (an association list, read with
  \<open>map_of\<close>). A float is a value of the type parameter \<open>'fl\<close>: the doubles of the
  machine, with their infinities and NaNs (\<^verbatim>\<open>json.loads\<close> accepts the literals
  \<^verbatim>\<open>NaN\<close>, \<^verbatim>\<open>Infinity\<close> and \<^verbatim>\<open>-Infinity\<close> too).
\<close>

datatype 'fl pyval = PNone | PBool bool | PInt int | PFloat 'fl | PStr string
  | PList "'fl pyval list" | PDict "(string \<times> 'fl pyval) list"
























section \<open>Client: detection and the shared coordinates (client.py)\<close>

text \<open>
  The OpenCV calls of \<^verbatim>\<open>find_ball_coordinates\<close>, as parameters: \<open>'f\<close> is the type of
  images and \<open>'c\<close> the type of contours. \<open>cvtColor\<close> stands for the conversion with
  \<^verbatim>\<open>COLOR_BGR2GRAY\<close>, \<open>threshold\<close> for the image returned with \<^verbatim>\<open>THRESH_BINARY\<close>,
  \<open>findContours\<close> for the contours found with \<^verbatim>\<open>RETR_EXTERNAL\<close> and
  \<^verbatim>\<open>CHAIN_APPROX_SIMPLE\<close>. Areas, centres and radii are floats, and each is taken as
  the real number it denotes: the code only compares and truncates them.
\<close>

record ('f, 'c) cv2 =
  cvtColor :: "'f \<Rightarrow> 'f"
  threshold :: "'f \<Rightarrow> int \<Rightarrow> int \<Rightarrow> 'f"
  findContours :: "'f \<Rightarrow> 'c list"
  contourArea :: "'c \<Rightarrow> real"
  minEnclosingCircle :: "'c \<Rightarrow> (real \<times> real) \<times> real"

text \<open>\<^verbatim>\<open>int(r)\<close> on a float truncates towards zero.\<close>

definition py_int :: "real \<Rightarrow> int" where
  "py_int r = (if 0 \<le> r then \<lfloor>r\<rfloor> else \<lceil>r\<rceil>)"

text \<open>
  \<^verbatim>\<open>max(contours, key=...)\<close> on a non-empty sequence: the running best is replaced
  only by a strictly greater key, so the first of several maximal items is returned.
\<close>

fun max_from :: "('a \<Rightarrow> real) \<Rightarrow> 'a \<Rightarrow> 'a list \<Rightarrow> 'a" where
  "max_from key best [] = best"
| "max_from key best (c # cs) = max_from key (if key c > key best then c else best) cs"

text \<open>\<^verbatim>\<open>find_ball_coordinates\<close>: \<open>None\<close> when there is no contour.\<close>

definition find_ball_coordinates :: "('f, 'c) cv2 \<Rightarrow> 'f \<Rightarrow> (int \<times> int) option" where
  "find_ball_coordinates cv frame =
     (let gray = cvtColor cv frame;
          thresh = threshold cv gray 250 255;
          contours = findContours cv thresh
      in case contours of
           [] \<Rightarrow> None
         | c0 # cs \<Rightarrow>
             (let c = max_from (contourArea cv) c0 cs;
                  centre = fst (minEnclosingCircle cv c)
              in Some (py_int (fst centre), py_int (snd centre))))"

text \<open>
  The two shared cells of \<^verbatim>\<open>run_client\<close>, each a
  \<^verbatim>\<open>multiprocessing.Value(ctypes.c_int, 0)\<close>: a 32-bit signed integer with a lock of
  its own. Assigning to \<^verbatim>\<open>.value\<close> keeps the low 32 bits of the Python int (ctypes does
  not check the range); reading gives the signed value.
\<close>

record store =
  x_value :: "32 word"
  y_value :: "32 word"

definition initial_store :: store where
  "initial_store = \<lparr>x_value = 0, y_value = 0\<rparr>"

text \<open>
  The accesses of the writer. Each is atomic on its cell; nothing makes two of them
  atomic together.
\<close>

datatype access = Set_x int | Set_y int

fun step :: "access \<Rightarrow> store \<Rightarrow> store" where
  "step (Set_x v) s = s\<lparr>x_value := word_of_int v\<rparr>"
| "step (Set_y v) s = s\<lparr>y_value := word_of_int v\<rparr>"

text \<open>
  \<^verbatim>\<open>x_value.value, y_value.value = coordinates\<close>: the targets of a tuple assignment are
  assigned from left to right, so this is the store to \<open>x_value\<close> followed by the store
  to \<open>y_value\<close>.
\<close>

fun assign_steps :: "int \<times> int \<Rightarrow> access list" where
  "assign_steps (a, b) = [Set_x a, Set_y b]"

definition store_coordinates :: "int \<times> int \<Rightarrow> store \<Rightarrow> store" where
  "store_coordinates coordinates s = fold step (assign_steps coordinates) s"

text \<open>
  The body of the loop of \<^verbatim>\<open>process_frame\<close> for a frame that is not the sentinel. A
  tuple of two items is true in \<^verbatim>\<open>if coordinates:\<close> whatever the items are.
\<close>

definition loop_body :: "('f, 'c) cv2 \<Rightarrow> 'f \<Rightarrow> store \<Rightarrow> store" where
  "loop_body cv frame s =
     (case find_ball_coordinates cv frame of
        None \<Rightarrow> s
      | Some coordinates \<Rightarrow> store_coordinates coordinates s)"

text \<open>
  How a run of \<^verbatim>\<open>process_frame\<close> on a given queue content ends. \<open>Exited\<close>: the loop
  met the sentinel and returned; \<open>Waiting\<close>: the queue ran empty and the loop is blocked
  in \<^verbatim>\<open>frame_queue.get()\<close>. Both carry the store and, as a log, the frames handed to
  \<^verbatim>\<open>find_ball_coordinates\<close> in the order of the calls; \<open>Exited\<close> also carries the items
  still on the queue.
\<close>

datatype 'f run = Exited store "'f list" "'f option list" | Waiting store "'f list"

fun detected :: "'f \<Rightarrow> 'f run \<Rightarrow> 'f run" where
  "detected frame (Exited s frames rest) = Exited s (frame # frames) rest"
| "detected frame (Waiting s frames) = Waiting s (frame # frames)"

fun store_of :: "'f run \<Rightarrow> store" where
  "store_of (Exited s frames rest) = s"
| "store_of (Waiting s frames) = s"

fun frames_of :: "'f run \<Rightarrow> 'f list" where
  "frames_of (Exited s frames rest) = frames"
| "frames_of (Waiting s frames) = frames"

text \<open>
  \<^verbatim>\<open>process_frame\<close>: the queue is the list of its items, the oldest first, \<open>None\<close>
  being the shutdown signal.
\<close>

fun process_frame :: "('f, 'c) cv2 \<Rightarrow> 'f option list \<Rightarrow> store \<Rightarrow> 'f run" where
  "process_frame cv [] s = Waiting s []"
| "process_frame cv (None # frame_queue) s = Exited s [] frame_queue"
| "process_frame cv (Some frame # frame_queue) s =
     detected frame (process_frame cv frame_queue (loop_body cv frame s))"

text \<open>
  The readers (\<^verbatim>\<open>send_coordinates\<close> and the display loop of \<^verbatim>\<open>on_track\<close>) load
  \<^verbatim>\<open>x_value.value\<close> and then \<^verbatim>\<open>y_value.value\<close>. \<open>read_store\<close> is the two loads with
  no store in between.
\<close>

definition read_store :: "store \<Rightarrow> int \<times> int" where
  "read_store s = (sint (x_value s), sint (y_value s))"

text \<open>The test of \<^verbatim>\<open>on_track\<close> for "coordinates have been updated".\<close>

definition coordinates_updated :: "store \<Rightarrow> bool" where
  "coordinates_updated s \<longleftrightarrow> read_store s \<noteq> (0, 0)"

text \<open>
  The two loads of a reader running beside the writer, which is another process: of the
  stores \<open>writes\<close> the writer still has to do, \<open>i\<close> are done before the load of
  \<open>x_value\<close> and \<open>j\<close> more between the two loads. Every interleaving of the two loads
  with the stores is one choice of \<open>i\<close> and \<open>j\<close>.
\<close>

definition read_pair :: "nat \<Rightarrow> nat \<Rightarrow> access list \<Rightarrow> store \<Rightarrow> int \<times> int" where
  "read_pair i j writes s =
     (let s1 = fold step (take i writes) s;
          rx = sint (x_value s1);
          s2 = fold step (take j (drop i writes)) s1;
          ry = sint (y_value s2)
      in (rx, ry))"

text \<open>
  An instance of the OpenCV parameters for the examples: a frame is the list of its bright
  pixels, all isolated. Every bright pixel is a contour of its own, of area 0, and the
  smallest circle around it has the pixel as its centre and radius 0.
\<close>

definition pixel_cv :: "((real \<times> real) list, real \<times> real) cv2" where
  "pixel_cv = \<lparr>cvtColor = (\<lambda>frame. frame), threshold = (\<lambda>gray thresh maxval. gray),
     findContours = (\<lambda>thresh. thresh), contourArea = (\<lambda>c. 0),
     minEnclosingCircle = (\<lambda>c. (c, 0))\<rparr>"


section \<open>Properties of the ball\<close>

lemma update_position_x [simp]:
  "x (update_position b w h) = x b + velocity_x b"
  by (simp add: update_position_def check_bounce_def Let_def)

lemma update_position_y [simp]:
  "y (update_position b w h) = y b + velocity_y b"
  by (simp add: update_position_def check_bounce_def Let_def)

lemma update_position_radius [simp]:
  "radius (update_position b w h) = radius b"
  by (simp add: update_position_def check_bounce_def Let_def)

lemma update_position_velocity_x:
  "velocity_x (update_position b w h) =
     (if x b + velocity_x b - radius b \<le> 0 \<or> x b + velocity_x b + radius b \<ge> w
      then - velocity_x b else velocity_x b)"
  by (simp add: update_position_def check_bounce_def Let_def)

lemma update_position_velocity_y:
  "velocity_y (update_position b w h) =
     (if y b + velocity_y b - radius b \<le> 0 \<or> y b + velocity_y b + radius b \<ge> h
      then - velocity_y b else velocity_y b)"
  by (simp add: update_position_def check_bounce_def Let_def)

lemma update_position_abs_velocity [simp]:
  "\<bar>velocity_x (update_position b w h)\<bar> = \<bar>velocity_x b\<bar>"
  "\<bar>velocity_y (update_position b w h)\<bar> = \<bar>velocity_y b\<bar>"
  by (simp_all add: update_position_velocity_x update_position_velocity_y)

lemma ticks_radius [simp]: "radius (ticks n b w h) = radius b"
  by (induction n) simp_all

lemma ticks_abs_velocity [simp]:
  "\<bar>velocity_x (ticks n b w h)\<bar> = \<bar>velocity_x b\<bar>"
  "\<bar>velocity_y (ticks n b w h)\<bar> = \<bar>velocity_y b\<bar>"
  by (induction n) simp_all

lemma in_bounds_near: "in_bounds b w h \<Longrightarrow> near_bounds b w h"
  by (simp add: in_bounds_def near_bounds_def)

lemma near_bounds_step:
  assumes "near_bounds b w h"
  shows "near_bounds (update_position b w h) w h"
proof -
  have ax: "(radius b \<le> x b \<and> x b \<le> w - radius b) \<or>
      (radius b \<le> x b + velocity_x b \<and> x b + velocity_x b \<le> w - radius b \<and>
       (x b < radius b \<and> 0 < velocity_x b \<or> w - radius b < x b \<and> velocity_x b < 0))"
    using assms by (simp add: near_bounds_def)
  have ay: "(radius b \<le> y b \<and> y b \<le> h - radius b) \<or>
      (radius b \<le> y b + velocity_y b \<and> y b + velocity_y b \<le> h - radius b \<and>
       (y b < radius b \<and> 0 < velocity_y b \<or> h - radius b < y b \<and> velocity_y b < 0))"
    using assms by (simp add: near_bounds_def)
  let ?b = "update_position b w h"
  have bx: "(radius ?b \<le> x ?b \<and> x ?b \<le> w - radius ?b) \<or>
      (radius ?b \<le> x ?b + velocity_x ?b \<and> x ?b + velocity_x ?b \<le> w - radius ?b \<and>
       (x ?b < radius ?b \<and> 0 < velocity_x ?b \<or> w - radius ?b < x ?b \<and> velocity_x ?b < 0))"
    using ax by (simp add: update_position_velocity_x) arith
  have "(radius ?b \<le> y ?b \<and> y ?b \<le> h - radius ?b) \<or>
      (radius ?b \<le> y ?b + velocity_y ?b \<and> y ?b + velocity_y ?b \<le> h - radius ?b \<and>
       (y ?b < radius ?b \<and> 0 < velocity_y ?b \<or> h - radius ?b < y ?b \<and> velocity_y ?b < 0))"
    using ay by (simp add: update_position_velocity_y) arith
  with bx show ?thesis
    unfolding near_bounds_def by blast
qed

lemma near_bounds_ticks: "near_bounds b w h \<Longrightarrow> near_bounds (ticks n b w h) w h"
  by (induction n) (simp_all add: near_bounds_step)

lemma near_bounds_overshoot:
  assumes "near_bounds b w h"
  shows "radius b - \<bar>velocity_x b\<bar> \<le> x b \<and> x b \<le> w - radius b + \<bar>velocity_x b\<bar> \<and>
         radius b - \<bar>velocity_y b\<bar> \<le> y b \<and> y b \<le> h - radius b + \<bar>velocity_y b\<bar>"
  using assms unfolding near_bounds_def by arith


text \<open>
  C1. One call to \<open>update_position\<close> adds each velocity component to its coordinate,
  whatever the state, and then inverts a velocity component exactly when the moved
  centre minus the radius is at most 0 or the moved centre plus the radius is at least
  the dimension of that axis. The tests of the two axes are independent, and the
  position returned is the moved position: the inversion does not move the ball again.
  The velocity it leaves is the step of the next call.
\<close>

theorem update_position_move_then_bounce:
  "x (update_position b w h) = x b + velocity_x b \<and>
   y (update_position b w h) = y b + velocity_y b \<and>
   velocity_x (update_position b w h) =
     (if x b + velocity_x b - radius b \<le> 0 \<or> x b + velocity_x b + radius b \<ge> w
      then - velocity_x b else velocity_x b) \<and>
   velocity_y (update_position b w h) =
     (if y b + velocity_y b - radius b \<le> 0 \<or> y b + velocity_y b + radius b \<ge> h
      then - velocity_y b else velocity_y b) \<and>
   x (update_position (update_position b w h) w h) =
     x b + velocity_x b + velocity_x (update_position b w h) \<and>
   y (update_position (update_position b w h) w h) =
     y b + velocity_y b + velocity_y (update_position b w h)"
  by (simp add: update_position_velocity_x update_position_velocity_y)

text \<open>
  The assertion of \<^verbatim>\<open>test_ball_check_bounce\<close>: from \<open>x = 639\<close> the ball moves on to
  \<open>641\<close> and only its velocity turns.
\<close>

theorem update_position_move_then_bounce_witness:
  "update_position \<lparr>x = 639, y = 240, velocity_x = 2, velocity_y = 2, radius = 30\<rparr> 640 480
     = \<lparr>x = 641, y = 242, velocity_x = - 2, velocity_y = 2, radius = 30\<rparr>"
  using update_position_move_then_bounce
    [of "\<lparr>x = 639, y = 240, velocity_x = 2, velocity_y = 2, radius = 30\<rparr>" 640 480]
  by (simp add: Ball.equality)

text \<open>
  C10. A call to \<open>update_position\<close> never changes the radius, and each velocity
  component afterwards is the one before or its negation, so the speed along each axis
  is the same before and after.
\<close>

theorem update_position_keeps_radius_and_speed:
  "radius (update_position b w h) = radius b \<and>
   (velocity_x (update_position b w h) = velocity_x b \<or>
    velocity_x (update_position b w h) = - velocity_x b) \<and>
   (velocity_y (update_position b w h) = velocity_y b \<or>
    velocity_y (update_position b w h) = - velocity_y b) \<and>
   \<bar>velocity_x (update_position b w h)\<bar> = \<bar>velocity_x b\<bar> \<and>
   \<bar>velocity_y (update_position b w h)\<bar> = \<bar>velocity_y b\<bar>"
  by (simp add: update_position_velocity_x update_position_velocity_y)

text \<open>
  The corner of \<^verbatim>\<open>test_ball_collision_corner\<close>: both components turn, the radius
  stays 10 and both speeds stay 10.
\<close>

theorem update_position_keeps_radius_and_speed_witness:
  "radius (update_position \<lparr>x = 630, y = 470, velocity_x = 10, velocity_y = 10, radius = 10\<rparr> 640 480) = 10 \<and>
   velocity_x (update_position \<lparr>x = 630, y = 470, velocity_x = 10, velocity_y = 10, radius = 10\<rparr> 640 480) = - 10 \<and>
   velocity_y (update_position \<lparr>x = 630, y = 470, velocity_x = 10, velocity_y = 10, radius = 10\<rparr> 640 480) = - 10"
  using update_position_keeps_radius_and_speed
    [of "\<lparr>x = 630, y = 470, velocity_x = 10, velocity_y = 10, radius = 10\<rparr>" 640 480]
  by (simp add: update_position_velocity_x update_position_velocity_y)

text \<open>
  C5, as stated, fails: nothing keeps a radius from being negative. The ball at
  \<open>(-5, 0)\<close> with radius \<open>-5\<close> and velocity \<open>(-3, 0)\<close> is inside
  \<open>[radius, dimension - radius]\<close> on both axes of a 640 by 480 frame, its radius is
  at most half the smaller dimension, and one call moves its centre to \<open>x = -8\<close>,
  below \<open>-3\<close>.
\<close>

theorem update_position_overshoot_negative_radius:
  "in_bounds \<lparr>x = - 5, y = 0, velocity_x = - 3, velocity_y = 0, radius = - 5\<rparr> 640 480 \<and>
   radius \<lparr>x = - 5, y = 0, velocity_x = - 3, velocity_y = 0, radius = - 5\<rparr>
     \<le> min 640 480 div 2 \<and>
   x (update_position \<lparr>x = - 5, y = 0, velocity_x = - 3, velocity_y = 0, radius = - 5\<rparr> 640 480)
     = - 8 \<and>
   \<not> - \<bar>velocity_x \<lparr>x = - 5, y = 0, velocity_x = - 3, velocity_y = 0, radius = - 5\<rparr>\<bar>
     \<le> x (update_position
           \<lparr>x = - 5, y = 0, velocity_x = - 3, velocity_y = 0, radius = - 5\<rparr> 640 480)"
  by (simp add: in_bounds_def)

text \<open>
  C5, amended. Take a ball whose radius is not negative and is at most half the smaller
  dimension, and whose centre is inside \<open>[radius, dimension - radius]\<close> on both axes.
  After one call to \<open>update_position\<close> the centre is inside
  \<open>[- |velocity|, dimension + |velocity|]\<close> on both axes, for the velocity before the
  call as well as for the velocity after it.
\<close>

theorem update_position_bounded_overshoot:
  assumes "0 \<le> radius b"
    and "radius b \<le> min w h div 2"
    and "in_bounds b w h"
  shows "- \<bar>velocity_x b\<bar> \<le> x (update_position b w h) \<and>
         x (update_position b w h) \<le> w + \<bar>velocity_x b\<bar> \<and>
         - \<bar>velocity_y b\<bar> \<le> y (update_position b w h) \<and>
         y (update_position b w h) \<le> h + \<bar>velocity_y b\<bar> \<and>
         - \<bar>velocity_x (update_position b w h)\<bar> \<le> x (update_position b w h) \<and>
         x (update_position b w h) \<le> w + \<bar>velocity_x (update_position b w h)\<bar> \<and>
         - \<bar>velocity_y (update_position b w h)\<bar> \<le> y (update_position b w h) \<and>
         y (update_position b w h) \<le> h + \<bar>velocity_y (update_position b w h)\<bar>"
proof -
  have "radius b \<le> x b" "x b \<le> w - radius b" "radius b \<le> y b" "y b \<le> h - radius b"
    using assms(3) by (simp_all add: in_bounds_def)
  with assms(1) show ?thesis
    by simp arith
qed

text \<open>
  A ball of radius 0 in the corner \<open>(0, 0)\<close>, moving left by 3: its centre goes to
  \<open>x = -3\<close>, the bound itself.
\<close>

theorem update_position_bounded_overshoot_witness:
  "(0::int) \<le> radius \<lparr>x = 0, y = 0, velocity_x = - 3, velocity_y = 0, radius = 0\<rparr> \<and>
   radius \<lparr>x = 0, y = 0, velocity_x = - 3, velocity_y = 0, radius = 0\<rparr> \<le> min 640 480 div 2 \<and>
   in_bounds \<lparr>x = 0, y = 0, velocity_x = - 3, velocity_y = 0, radius = 0\<rparr> 640 480 \<and>
   x (update_position \<lparr>x = 0, y = 0, velocity_x = - 3, velocity_y = 0, radius = 0\<rparr> 640 480) = - 3 \<and>
   - \<bar>velocity_x \<lparr>x = 0, y = 0, velocity_x = - 3, velocity_y = 0, radius = 0\<rparr>\<bar>
     \<le> x (update_position \<lparr>x = 0, y = 0, velocity_x = - 3, velocity_y = 0, radius = 0\<rparr> 640 480)"
  using update_position_bounded_overshoot
    [of "\<lparr>x = 0, y = 0, velocity_x = - 3, velocity_y = 0, radius = 0\<rparr>" 640 480]
  by (simp add: in_bounds_def)

text \<open>
  C2, as stated, fails: the ball of \<^verbatim>\<open>test_ball_collision_corner\<close> has a positive
  radius and starts inside the bounds, and one call puts its centre at \<open>(640, 480)\<close>,
  beyond \<open>[10, 630]\<close> and \<open>[10, 470]\<close>.
\<close>

theorem update_position_leaves_bounds:
  "0 < radius \<lparr>x = 630, y = 470, velocity_x = 10, velocity_y = 10, radius = 10\<rparr> \<and>
   in_bounds \<lparr>x = 630, y = 470, velocity_x = 10, velocity_y = 10, radius = 10\<rparr> 640 480 \<and>
   \<not> in_bounds
       (update_position \<lparr>x = 630, y = 470, velocity_x = 10, velocity_y = 10, radius = 10\<rparr> 640 480)
       640 480"
  by (simp add: in_bounds_def)

text \<open>
  C2, amended. A ball that starts inside \<open>[radius, dimension - radius]\<close> on both axes
  is, after any number of calls to \<open>update_position\<close> with the same dimensions, inside
  \<open>[radius - |velocity|, dimension - radius + |velocity|]\<close> on both axes: an edge is
  passed by at most one step.
\<close>

theorem ticks_within_one_step_of_bounds:
  assumes "in_bounds b w h"
  shows "radius b - \<bar>velocity_x b\<bar> \<le> x (ticks n b w h) \<and>
         x (ticks n b w h) \<le> w - radius b + \<bar>velocity_x b\<bar> \<and>
         radius b - \<bar>velocity_y b\<bar> \<le> y (ticks n b w h) \<and>
         y (ticks n b w h) \<le> h - radius b + \<bar>velocity_y b\<bar>"
proof -
  have "near_bounds (ticks n b w h) w h"
    using assms by (simp add: in_bounds_near near_bounds_ticks)
  from near_bounds_overshoot [OF this] show ?thesis
    by simp
qed

theorem ticks_within_one_step_of_bounds_witness:
  "in_bounds \<lparr>x = 630, y = 470, velocity_x = 10, velocity_y = 10, radius = 10\<rparr> 640 480 \<and>
   x (ticks (Suc (Suc 0)) \<lparr>x = 630, y = 470, velocity_x = 10, velocity_y = 10, radius = 10\<rparr> 640 480) = 630 \<and>
   (0::int) \<le> x (ticks (Suc 0) \<lparr>x = 630, y = 470, velocity_x = 10, velocity_y = 10, radius = 10\<rparr> 640 480) \<and>
   x (ticks (Suc 0) \<lparr>x = 630, y = 470, velocity_x = 10, velocity_y = 10, radius = 10\<rparr> 640 480) \<le> 640"
  using ticks_within_one_step_of_bounds
    [of "\<lparr>x = 630, y = 470, velocity_x = 10, velocity_y = 10, radius = 10\<rparr>" 640 480 "Suc 0"]
  by (simp add: in_bounds_def update_position_velocity_x)


section \<open>Properties of the telemetry handler\<close>


























section \<open>Properties of the client\<close>

lemma detected_store [simp]: "store_of (detected f r) = store_of r"
  by (cases r) simp_all

lemma detected_frames [simp]: "frames_of (detected f r) = f # frames_of r"
  by (cases r) simp_all

text \<open>
  C4, as stated, fails. The store holds the detection \<open>(100, 100)\<close> and the detector
  publishes \<open>(200, 200)\<close>. A reader that loads \<open>x_value\<close> after the first store and
  \<open>y_value\<close> before the second reads \<open>(200, 100)\<close>: the x of one detection with the y
  of another.
\<close>

theorem reader_observes_torn_pair:
  "read_store (store_coordinates (100, 100) initial_store) = (100, 100) \<and>
   read_pair 1 0 (assign_steps (200, 200)) (store_coordinates (100, 100) initial_store)
     = (200, 100) \<and>
   read_store (store_coordinates (200, 200) (store_coordinates (100, 100) initial_store))
     = (200, 200)"
  by (simp add: read_pair_def read_store_def store_coordinates_def initial_store_def)

text \<open>
  C4, amended. A successful detection is published by two stores, to \<open>x_value\<close> and then
  to \<open>y_value\<close>, each atomic on its own cell. A reader running beside them loads, for
  each coordinate, the value before or the value after its store. It reads the whole
  earlier pair when its first load comes before both stores and its second before the
  store to \<open>y_value\<close>, and the whole new pair when its first load comes after the store
  to \<open>x_value\<close> and its second after the store to \<open>y_value\<close>; in the two other
  interleavings it reads one coordinate of each.
\<close>

theorem read_pair_of_one_assignment:
  "read_pair i j (assign_steps (a, b)) s =
     (if i = 0
      then (sint (x_value s),
            if j \<le> 1 then sint (y_value s) else sint (word_of_int b :: 32 word))
      else (sint (word_of_int a :: 32 word),
            if i = 1 \<and> j = 0 then sint (y_value s) else sint (word_of_int b :: 32 word)))"
proof -
  consider "i = 0" "j = 0" | "i = 0" "j = 1" | "i = 0" "2 \<le> j"
    | "i = 1" "j = 0" | "i = 1" "1 \<le> j" | "2 \<le> i"
    by linarith
  then show ?thesis
  proof cases
    case 3
    then obtain k where "j = Suc (Suc k)"
      by (metis Suc_le_D numeral_2_eq_2 Suc_le_mono)
    with 3 show ?thesis by (simp add: read_pair_def)
  next
    case 5
    then obtain k where "j = Suc k"
      by (metis Suc_le_D One_nat_def)
    with 5 show ?thesis by (simp add: read_pair_def)
  next
    case 6
    then obtain k where "i = Suc (Suc k)"
      by (metis Suc_le_D numeral_2_eq_2 Suc_le_mono)
    then show ?thesis by (simp add: read_pair_def)
  qed (simp_all add: read_pair_def)
qed

text \<open>
  C6. When thresholding a frame yields no contours, \<open>find_ball_coordinates\<close> returns
  \<open>None\<close>; the loop body of \<open>process_frame\<close> then leaves the store as it was, and a run
  on that frame followed by the shutdown signal exits with both shared values unchanged.
\<close>

theorem no_contours_store_unchanged:
  assumes "findContours cv (threshold cv (cvtColor cv frame) 250 255) = []"
  shows "find_ball_coordinates cv frame = None \<and>
         loop_body cv frame s = s \<and>
         process_frame cv [Some frame, None] s = Exited s [frame] [] \<and>
         x_value (store_of (process_frame cv [Some frame, None] s)) = x_value s \<and>
         y_value (store_of (process_frame cv [Some frame, None] s)) = y_value s"
proof -
  have none: "find_ball_coordinates cv frame = None"
    using assms by (simp add: find_ball_coordinates_def)
  then have "loop_body cv frame s = s"
    by (simp add: loop_body_def)
  with none show ?thesis
    by simp
qed

text \<open>
  \<^verbatim>\<open>test_process_frame_without_ball\<close>: a frame with no bright pixel, then the
  shutdown signal; both values are still 0.
\<close>

theorem no_contours_store_unchanged_witness:
  "findContours pixel_cv (threshold pixel_cv (cvtColor pixel_cv []) 250 255) = [] \<and>
   find_ball_coordinates pixel_cv [] = None \<and>
   process_frame pixel_cv [Some [], None] initial_store = Exited initial_store [[]] [] \<and>
   read_store (store_of (process_frame pixel_cv [Some [], None] initial_store)) = (0, 0)"
  using no_contours_store_unchanged [of pixel_cv "[]" initial_store]
  by (simp add: pixel_cv_def read_store_def initial_store_def)

text \<open>
  C7. On a queue holding N frames, then the shutdown signal, then anything, the loop of
  \<open>process_frame\<close> runs detection on exactly those N frames, in the order of the queue,
  and exits: the store is the result of the N loop bodies applied in order, and what
  followed the signal is still on the queue, untouched.
\<close>

theorem process_frame_stops_at_sentinel:
  "process_frame cv (map Some frames @ None # rest) s =
     Exited (fold (loop_body cv) frames s) frames rest \<and>
   length (frames_of (process_frame cv (map Some frames @ None # rest) s)) = length frames"
proof -
  have "process_frame cv (map Some frames @ None # rest) s =
      Exited (fold (loop_body cv) frames s) frames rest"
  proof (induction frames arbitrary: s)
    case Nil
    show ?case by simp
  next
    case (Cons frame frames)
    have "process_frame cv (map Some (frame # frames) @ None # rest) s =
        detected frame (process_frame cv (map Some frames @ None # rest) (loop_body cv frame s))"
      by simp
    also have "\<dots> = detected frame
        (Exited (fold (loop_body cv) frames (loop_body cv frame s)) frames rest)"
      by (simp only: Cons.IH)
    also have "\<dots> = Exited (fold (loop_body cv) (frame # frames) s) (frame # frames) rest"
      by simp
    finally show ?case .
  qed
  then show ?thesis by simp
qed

text \<open>
  Two frames, the signal, and a third frame behind it: detection runs on the first two
  only, and the store holds the coordinates of the second.
\<close>

theorem process_frame_stops_at_sentinel_witness:
  "process_frame pixel_cv [Some [(320, 240)], Some [(322, 242)], None, Some [(5, 5)]]
     initial_store =
   Exited \<lparr>x_value = 322, y_value = 242\<rparr> [[(320, 240)], [(322, 242)]] [Some [(5, 5)]]"
  using process_frame_stops_at_sentinel
    [of pixel_cv "[[(320, 240)], [(322, 242)]]" "[Some [(5, 5)]]" initial_store]
  by (simp add: loop_body_def find_ball_coordinates_def pixel_cv_def py_int_def
      store_coordinates_def)

text \<open>
  C8. The claim does not hold of the code. Both cells start at 0, and the display loop
  of \<^verbatim>\<open>on_track\<close> takes the pair \<open>(0, 0)\<close> for "not updated" (its comment: "Check
  if coordinates have been updated"). A frame whose only bright pixel is the one at the
  origin is detected successfully at \<open>(0, 0)\<close>, and the loop body stores that pair:
  after the detection the store reads what it read before any detection, and the test of
  the display loop still says "not updated".
\<close>

theorem detection_at_origin_reads_as_unset:
  "read_store initial_store = (0, 0) \<and>
   find_ball_coordinates pixel_cv [(0, 0)] = Some (0, 0) \<and>
   read_store (loop_body pixel_cv [(0, 0)] initial_store) = read_store initial_store \<and>
   \<not> coordinates_updated (loop_body pixel_cv [(0, 0)] initial_store)"
  by (simp add: coordinates_updated_def read_store_def loop_body_def find_ball_coordinates_def
      pixel_cv_def py_int_def store_coordinates_def initial_store_def)

end
